theory Spec2Isabelle
  imports Main
begin

section \<open>JavaScript values, errors and promises\<close>

text \<open>
  The facade \<^verbatim>\<open>Init\<close> (src/unnamed/part_002) forwards every call to the
  external SDK and tests the results only for truthiness (\<^verbatim>\<open>!x\<close>). A value
  returned by the SDK is therefore modelled by its JavaScript kind; the payload of an
  object is opaque. Numbers are integers here: no operation of the facade computes with
  them, only \<^verbatim>\<open>0\<close> being falsy matters.
\<close>

datatype jsval = JUndefined | JNull | JBool bool | JNum int | JStr string | JObj string

fun truthy :: "jsval \<Rightarrow> bool" where
  "truthy JUndefined = False"
| "truthy JNull = False"
| "truthy (JBool b) = b"
| "truthy (JNum n) = (n \<noteq> 0)"
| "truthy (JStr s) = (s \<noteq> [])"
| "truthy (JObj x) = True"

text \<open>
  The errors an operation can end with: the three \<^verbatim>\<open>Error\<close>s the class throws
  itself, the \<^verbatim>\<open>TypeError\<close> of a method call on \<^verbatim>\<open>undefined\<close>, and whatever the
  SDK throws, passed through.
\<close>

datatype error = ApiKeyNotSet | UploadFailed | FileNotFound | TypeError | External string

fun message :: "error \<Rightarrow> string" where
  "message ApiKeyNotSet = ''API key is not set.''"
| "message UploadFailed = ''Upload failed''"
| "message FileNotFound = ''File not found''"
| "message TypeError = ''Cannot read properties of undefined''"
| "message (External m) = m"

text \<open>A promise, seen when it has settled.\<close>

datatype promise = Fulfilled jsval | Rejected error

text \<open>\<^verbatim>\<open>await p\<close>: the value of a fulfilled promise, or the rejection rethrown.\<close>

fun await :: "promise \<Rightarrow> error + jsval" where
  "await (Fulfilled v) = Inr v"
| "await (Rejected e) = Inl e"

text \<open>
  What the body of an \<^verbatim>\<open>async\<close> function ends with: a thrown error, a returned
  plain value, or a returned promise. The promise of the call is rejected with the error,
  fulfilled with the value, or follows the returned promise.
\<close>

datatype completion = Throw error | ReturnValue jsval | ReturnPromise promise

fun settle :: "completion \<Rightarrow> promise" where
  "settle (Throw e) = Rejected e"
| "settle (ReturnValue v) = Fulfilled v"
| "settle (ReturnPromise p) = p"

fun returns_promise :: "completion \<Rightarrow> bool" where
  "returns_promise (ReturnPromise p) = True"
| "returns_promise c = False"

text \<open>
  A call of an \<^verbatim>\<open>async\<close> method: the promise its body's completion settles, and
  the state the body leaves.
\<close>

definition async :: "completion \<times> 'a \<Rightarrow> promise \<times> 'a" where
  "async r = (settle (fst r), snd r)"

section \<open>The external SDK\<close>

text \<open>\<^verbatim>\<open>ModelVariant\<close> (types/model.ts): a union of eight string literals.\<close>

datatype ModelVariant =
    Gemini_2_5_pro_preview_03_25
  | Gemini_2_0_flash
  | Gemini_2_0_flash_lite
  | Gemini_1_5_flash
  | Gemini_1_5_flash_8b
  | Gemini_1_5_pro
  | Gemini_embedding_exp
  | Imagen_3_0_generate_002

text \<open>
  \<^verbatim>\<open>GoogleGenAIOptions\<close>: the credential entry, and the other entries as an
  association list.
\<close>

record GoogleGenAIOptions =
  apiKey :: "string option"
  others :: "(string \<times> string) list"

definition empty_options :: GoogleGenAIOptions where
  "empty_options = \<lparr>apiKey = None, others = []\<rparr>"

text \<open>
  Objects of the SDK carry the number of their allocation, so that two objects built
  from equal arguments are still two objects. A client handle remembers the options it
  was constructed from, a chat the client and the model it was created with.
\<close>

datatype GoogleGenAI = GoogleGenAI (genai_oid: nat) (genai_options: GoogleGenAIOptions)

datatype Chat = Chat (chat_oid: nat) (chat_client: GoogleGenAI) (chat_model: ModelVariant)

datatype models_op =
    MGenerateContent
  | MGenerateContentStream
  | MGenerateImages
  | MGenerateVideos
  | MComputeTokens
  | MCountTokens
  | MEmbedContent

text \<open>
  The calls the facade makes on the SDK, with receiver and arguments:
  \<^verbatim>\<open>new GoogleGenAI(options)\<close>, \<^verbatim>\<open>genai.chats.create({model, config})\<close>,
  \<^verbatim>\<open>genai.models.op({model, contents|prompt, config})\<close>,
  \<^verbatim>\<open>chat.sendMessage({message})\<close>, \<^verbatim>\<open>chat.sendMessageStream({message})\<close> and
  \<^verbatim>\<open>genai.files.upload/get/delete\<close>.
\<close>

datatype ext_call =
    New_GoogleGenAI GoogleGenAIOptions
  | Chats_create GoogleGenAI ModelVariant
  | Models_call GoogleGenAI models_op ModelVariant string "string option"
  | Chat_sendMessage Chat string
  | Chat_sendMessageStream Chat string
  | Files_upload GoogleGenAI string "string option"
  | Files_get GoogleGenAI string "string option"
  | Files_delete GoogleGenAI string "string option"

text \<open>What an asynchronous call on the SDK ends with.\<close>

datatype outcome = Resolves jsval | Throws string

text \<open>
  The environment of a run: how the SDK answers a call, given the calls made before it,
  and the strings \<^verbatim>\<open>crypto.randomUUID()\<close> returns, by the number of the draw.
\<close>

record env =
  respond :: "ext_call list \<Rightarrow> ext_call \<Rightarrow> outcome"
  randomUUID :: "nat \<Rightarrow> string"

text \<open>
  The world outside the instance: the calls made on the SDK so far, the number of the
  next object and the number of UUIDs drawn.
\<close>

record world =
  trace :: "ext_call list"
  next_oid :: nat
  uuid_draws :: nat

section \<open>The class Init\<close>

text \<open>The cached pair \<^verbatim>\<open>{chat, id}\<close>; \<^verbatim>\<open>this.chat!\<close> is \<^verbatim>\<open>undefined\<close> when no client exists.\<close>

record session =
  chat_of :: "Chat option"
  id_of :: string

text \<open>
  An instance, in its world. \<^verbatim>\<open>_apiKey\<close>, \<^verbatim>\<open>_options\<close>, \<^verbatim>\<open>_genai\<close>,
  \<^verbatim>\<open>_modelVariant\<close> and \<^verbatim>\<open>_session\<close> are the private fields of the class.
\<close>

record Init = world +
  priv_apiKey :: string
  priv_options :: GoogleGenAIOptions
  priv_genai :: "GoogleGenAI option"
  priv_modelVariant :: ModelVariant
  chat :: "Chat option"
  priv_session :: "session option"

text \<open>\<^verbatim>\<open>new GoogleGenAI(opts)\<close>: a new handle, and the call recorded.\<close>

definition new_GoogleGenAI :: "GoogleGenAIOptions \<Rightarrow> Init \<Rightarrow> GoogleGenAI \<times> Init" where
  "new_GoogleGenAI opts s =
     (GoogleGenAI (next_oid s) opts,
      s\<lparr>trace := trace s @ [New_GoogleGenAI opts], next_oid := Suc (next_oid s)\<rparr>)"

text \<open>
  The constructor. The parameter properties store the four arguments (the defaults are
  \<^verbatim>\<open>{}\<close>, \<^verbatim>\<open>null\<close> and \<^verbatim>\<open>"gemini-1.5-flash"\<close>); the body writes the credential into
  the options and builds a client from them.
\<close>

definition constructor ::
  "string \<Rightarrow> GoogleGenAIOptions option \<Rightarrow> GoogleGenAI option \<Rightarrow> ModelVariant option \<Rightarrow> world \<Rightarrow> Init" where
  "constructor k opts g m w =
     (let s0 = \<lparr>trace = trace w, next_oid = next_oid w, uuid_draws = uuid_draws w,
                priv_apiKey = k,
                priv_options = (case opts of None \<Rightarrow> empty_options | Some b \<Rightarrow> b),
                priv_genai = g,
                priv_modelVariant = (case m of None \<Rightarrow> Gemini_1_5_flash | Some v \<Rightarrow> v),
                chat = None, priv_session = None\<rparr>;
          s1 = s0\<lparr>priv_options := (priv_options s0)\<lparr>apiKey := Some (priv_apiKey s0)\<rparr>\<rparr>;
          (h, s2) = new_GoogleGenAI (priv_options s1) s1
      in s2\<lparr>priv_genai := Some h\<rparr>)"

definition get_apiKey :: "Init \<Rightarrow> string" where
  "get_apiKey s = priv_apiKey s"

definition set_apiKey :: "string \<Rightarrow> Init \<Rightarrow> Init" where
  "set_apiKey v s = s\<lparr>priv_apiKey := v\<rparr>"

definition get_options :: "Init \<Rightarrow> GoogleGenAIOptions" where
  "get_options s = priv_options s"

text \<open>\<^verbatim>\<open>if (!this._genai) { this._genai = new GoogleGenAI(this._options); }\<close>, and the handle then held.\<close>

definition ensure_genai :: "Init \<Rightarrow> GoogleGenAI \<times> Init" where
  "ensure_genai s =
     (case priv_genai s of
        Some h \<Rightarrow> (h, s)
      | None \<Rightarrow> (let (h, s1) = new_GoogleGenAI (priv_options s) s in (h, s1\<lparr>priv_genai := Some h\<rparr>)))"

text \<open>The getter \<^verbatim>\<open>models\<close>; the models interface of a handle is written as the handle.\<close>

definition models :: "Init \<Rightarrow> (error + GoogleGenAI) \<times> Init" where
  "models s =
     (if priv_apiKey s = [] then (Inl ApiKeyNotSet, s)
      else (let (h, s1) = ensure_genai s in (Inr h, s1)))"

text \<open>An asynchronous call on the SDK: the promise it returns, and the call recorded.\<close>

fun promise_of :: "outcome \<Rightarrow> promise" where
  "promise_of (Resolves v) = Fulfilled v"
| "promise_of (Throws m) = Rejected (External m)"

definition invoke :: "env \<Rightarrow> ext_call \<Rightarrow> Init \<Rightarrow> promise \<times> Init" where
  "invoke E c s = (promise_of (respond E (trace s) c), s\<lparr>trace := trace s @ [c]\<rparr>)"

text \<open>\<^verbatim>\<open>this._genai?.chats.create({model: this._modelVariant, config: {}})\<close>\<close>

definition chats_create :: "Init \<Rightarrow> Chat option \<times> Init" where
  "chats_create s =
     (case priv_genai s of
        None \<Rightarrow> (None, s)
      | Some g \<Rightarrow>
          (Some (Chat (next_oid s) g (priv_modelVariant s)),
           s\<lparr>trace := trace s @ [Chats_create g (priv_modelVariant s)],
             next_oid := Suc (next_oid s)\<rparr>))"

definition createChatSession :: "env \<Rightarrow> Init \<Rightarrow> session \<times> Init" where
  "createChatSession E s =
     (let (c, s1) = chats_create s;
          s2 = s1\<lparr>chat := c\<rparr>;
          u = randomUUID E (uuid_draws s2);
          s3 = s2\<lparr>uuid_draws := Suc (uuid_draws s2)\<rparr>;
          ss = \<lparr>chat_of = chat s3, id_of = u\<rparr>
      in (ss, s3\<lparr>priv_session := Some ss\<rparr>))"

text \<open>The getter \<^verbatim>\<open>chatSession\<close>.\<close>

definition chatSession :: "env \<Rightarrow> Init \<Rightarrow> session \<times> Init" where
  "chatSession E s =
     (let s1 = (if chat s = None then (let (c, s') = chats_create s in s'\<lparr>chat := c\<rparr>) else s)
      in (case priv_session s1 of
            None \<Rightarrow> createChatSession E s1
          | Some ss \<Rightarrow> (ss, s1)))"

subsection \<open>The generation operations\<close>

text \<open>
  Each method is \<^verbatim>\<open>async\<close>: its body, and the call of it. All but
  \<^verbatim>\<open>computeTokens\<close> end in \<^verbatim>\<open>const res = await this.models.f({...}); return res\<close>.
\<close>

definition generateContent_body :: "env \<Rightarrow> string \<Rightarrow> string option \<Rightarrow> Init \<Rightarrow> completion \<times> Init" where
  "generateContent_body E contents config s =
     (if priv_apiKey s = [] then (Throw ApiKeyNotSet, s)
      else (let (g, s1) = ensure_genai s in
        (case models s1 of
           (Inl e, s2) \<Rightarrow> (Throw e, s2)
         | (Inr m, s2) \<Rightarrow>
             (let (p, s3) = invoke E (Models_call m MGenerateContent (priv_modelVariant s2) contents config) s2
              in (case await p of
                    Inl e \<Rightarrow> (Throw e, s3)
                  | Inr res \<Rightarrow> (ReturnValue res, s3))))))"

definition generateContent :: "env \<Rightarrow> string \<Rightarrow> string option \<Rightarrow> Init \<Rightarrow> promise \<times> Init" where
  "generateContent E contents config s = async (generateContent_body E contents config s)"

definition generateContentStream_body :: "env \<Rightarrow> string \<Rightarrow> string option \<Rightarrow> Init \<Rightarrow> completion \<times> Init" where
  "generateContentStream_body E contents config s =
     (if priv_apiKey s = [] then (Throw ApiKeyNotSet, s)
      else (let (g, s1) = ensure_genai s in
        (case models s1 of
           (Inl e, s2) \<Rightarrow> (Throw e, s2)
         | (Inr m, s2) \<Rightarrow>
             (let (p, s3) = invoke E (Models_call m MGenerateContentStream (priv_modelVariant s2) contents config) s2
              in (case await p of
                    Inl e \<Rightarrow> (Throw e, s3)
                  | Inr res \<Rightarrow> (ReturnValue res, s3))))))"

definition generateContentStream :: "env \<Rightarrow> string \<Rightarrow> string option \<Rightarrow> Init \<Rightarrow> promise \<times> Init" where
  "generateContentStream E contents config s = async (generateContentStream_body E contents config s)"

definition generateImages_body :: "env \<Rightarrow> string \<Rightarrow> string option \<Rightarrow> Init \<Rightarrow> completion \<times> Init" where
  "generateImages_body E prompt config s =
     (if priv_apiKey s = [] then (Throw ApiKeyNotSet, s)
      else (let (g, s1) = ensure_genai s in
        (case models s1 of
           (Inl e, s2) \<Rightarrow> (Throw e, s2)
         | (Inr m, s2) \<Rightarrow>
             (let (p, s3) = invoke E (Models_call m MGenerateImages (priv_modelVariant s2) prompt config) s2
              in (case await p of
                    Inl e \<Rightarrow> (Throw e, s3)
                  | Inr res \<Rightarrow> (ReturnValue res, s3))))))"

definition generateImages :: "env \<Rightarrow> string \<Rightarrow> string option \<Rightarrow> Init \<Rightarrow> promise \<times> Init" where
  "generateImages E prompt config s = async (generateImages_body E prompt config s)"

definition generateVideos_body :: "env \<Rightarrow> string \<Rightarrow> string option \<Rightarrow> Init \<Rightarrow> completion \<times> Init" where
  "generateVideos_body E prompt config s =
     (if priv_apiKey s = [] then (Throw ApiKeyNotSet, s)
      else (let (g, s1) = ensure_genai s in
        (case models s1 of
           (Inl e, s2) \<Rightarrow> (Throw e, s2)
         | (Inr m, s2) \<Rightarrow>
             (let (p, s3) = invoke E (Models_call m MGenerateVideos (priv_modelVariant s2) prompt config) s2
              in (case await p of
                    Inl e \<Rightarrow> (Throw e, s3)
                  | Inr res \<Rightarrow> (ReturnValue res, s3))))))"

definition generateVideos :: "env \<Rightarrow> string \<Rightarrow> string option \<Rightarrow> Init \<Rightarrow> promise \<times> Init" where
  "generateVideos E prompt config s = async (generateVideos_body E prompt config s)"

text \<open>\<^verbatim>\<open>computeTokens\<close> has no \<^verbatim>\<open>await\<close>: \<^verbatim>\<open>const res = this.models.computeTokens({...}); return res\<close>.\<close>

definition computeTokens_body :: "env \<Rightarrow> string \<Rightarrow> string option \<Rightarrow> Init \<Rightarrow> completion \<times> Init" where
  "computeTokens_body E contents config s =
     (if priv_apiKey s = [] then (Throw ApiKeyNotSet, s)
      else (let (g, s1) = ensure_genai s in
        (case models s1 of
           (Inl e, s2) \<Rightarrow> (Throw e, s2)
         | (Inr m, s2) \<Rightarrow>
             (let (p, s3) = invoke E (Models_call m MComputeTokens (priv_modelVariant s2) contents config) s2
              in (ReturnPromise p, s3)))))"

definition computeTokens :: "env \<Rightarrow> string \<Rightarrow> string option \<Rightarrow> Init \<Rightarrow> promise \<times> Init" where
  "computeTokens E contents config s = async (computeTokens_body E contents config s)"

definition countTokens_body :: "env \<Rightarrow> string \<Rightarrow> string option \<Rightarrow> Init \<Rightarrow> completion \<times> Init" where
  "countTokens_body E contents config s =
     (if priv_apiKey s = [] then (Throw ApiKeyNotSet, s)
      else (let (g, s1) = ensure_genai s in
        (case models s1 of
           (Inl e, s2) \<Rightarrow> (Throw e, s2)
         | (Inr m, s2) \<Rightarrow>
             (let (p, s3) = invoke E (Models_call m MCountTokens (priv_modelVariant s2) contents config) s2
              in (case await p of
                    Inl e \<Rightarrow> (Throw e, s3)
                  | Inr res \<Rightarrow> (ReturnValue res, s3))))))"

definition countTokens :: "env \<Rightarrow> string \<Rightarrow> string option \<Rightarrow> Init \<Rightarrow> promise \<times> Init" where
  "countTokens E contents config s = async (countTokens_body E contents config s)"

definition embedContent_body :: "env \<Rightarrow> string \<Rightarrow> string option \<Rightarrow> Init \<Rightarrow> completion \<times> Init" where
  "embedContent_body E contents config s =
     (if priv_apiKey s = [] then (Throw ApiKeyNotSet, s)
      else (let (g, s1) = ensure_genai s in
        (case models s1 of
           (Inl e, s2) \<Rightarrow> (Throw e, s2)
         | (Inr m, s2) \<Rightarrow>
             (let (p, s3) = invoke E (Models_call m MEmbedContent (priv_modelVariant s2) contents config) s2
              in (case await p of
                    Inl e \<Rightarrow> (Throw e, s3)
                  | Inr res \<Rightarrow> (ReturnValue res, s3))))))"

definition embedContent :: "env \<Rightarrow> string \<Rightarrow> string option \<Rightarrow> Init \<Rightarrow> promise \<times> Init" where
  "embedContent E contents config s = async (embedContent_body E contents config s)"

subsection \<open>Chat messages\<close>

text \<open>
  \<^verbatim>\<open>return await this.chatSession.chat.sendMessage({message})\<close>: a method call on
  \<^verbatim>\<open>undefined\<close> is a \<^verbatim>\<open>TypeError\<close>.
\<close>

definition chatMessage_body :: "env \<Rightarrow> string \<Rightarrow> Init \<Rightarrow> completion \<times> Init" where
  "chatMessage_body E msg s =
     (let (ss, s1) = chatSession E s in
        (case chat_of ss of
           None \<Rightarrow> (Throw TypeError, s1)
         | Some c \<Rightarrow>
             (let (p, s2) = invoke E (Chat_sendMessage c msg) s1
              in (case await p of
                    Inl e \<Rightarrow> (Throw e, s2)
                  | Inr res \<Rightarrow> (ReturnValue res, s2)))))"

definition chatMessage :: "env \<Rightarrow> string \<Rightarrow> Init \<Rightarrow> promise \<times> Init" where
  "chatMessage E msg s = async (chatMessage_body E msg s)"

definition chatMessageStream_body :: "env \<Rightarrow> string \<Rightarrow> Init \<Rightarrow> completion \<times> Init" where
  "chatMessageStream_body E msg s =
     (let (ss, s1) = chatSession E s in
        (case chat_of ss of
           None \<Rightarrow> (Throw TypeError, s1)
         | Some c \<Rightarrow>
             (let (p, s2) = invoke E (Chat_sendMessageStream c msg) s1
              in (case await p of
                    Inl e \<Rightarrow> (Throw e, s2)
                  | Inr res \<Rightarrow> (ReturnValue res, s2)))))"

definition chatMessageStream :: "env \<Rightarrow> string \<Rightarrow> Init \<Rightarrow> promise \<times> Init" where
  "chatMessageStream E msg s = async (chatMessageStream_body E msg s)"

subsection \<open>Files\<close>

text \<open>
  \<^verbatim>\<open>await this._genai?.files.upload(...)\<close>: with no client the optional chain is
  \<^verbatim>\<open>undefined\<close> and no call is made; otherwise the call is awaited and its result
  tested with \<^verbatim>\<open>!\<close>.
\<close>

definition uploadFile_body :: "env \<Rightarrow> string \<Rightarrow> string option \<Rightarrow> Init \<Rightarrow> completion \<times> Init" where
  "uploadFile_body E file config s =
     (case priv_genai s of
        None \<Rightarrow> (Throw UploadFailed, s)
      | Some g \<Rightarrow>
          (let (p, s1) = invoke E (Files_upload g file config) s in
             (case await p of
                Inl e \<Rightarrow> (Throw e, s1)
              | Inr newUpload \<Rightarrow>
                  if \<not> truthy newUpload then (Throw UploadFailed, s1)
                  else (ReturnValue newUpload, s1))))"

definition uploadFile :: "env \<Rightarrow> string \<Rightarrow> string option \<Rightarrow> Init \<Rightarrow> promise \<times> Init" where
  "uploadFile E file config s = async (uploadFile_body E file config s)"

definition getFile_body :: "env \<Rightarrow> string \<Rightarrow> string option \<Rightarrow> Init \<Rightarrow> completion \<times> Init" where
  "getFile_body E filename config s =
     (case priv_genai s of
        None \<Rightarrow> (Throw FileNotFound, s)
      | Some g \<Rightarrow>
          (let (p, s1) = invoke E (Files_get g filename config) s in
             (case await p of
                Inl e \<Rightarrow> (Throw e, s1)
              | Inr file \<Rightarrow>
                  if \<not> truthy file then (Throw FileNotFound, s1)
                  else (ReturnValue file, s1))))"

definition getFile :: "env \<Rightarrow> string \<Rightarrow> string option \<Rightarrow> Init \<Rightarrow> promise \<times> Init" where
  "getFile E filename config s = async (getFile_body E filename config s)"

definition deleteFile_body :: "env \<Rightarrow> string \<Rightarrow> string option \<Rightarrow> Init \<Rightarrow> completion \<times> Init" where
  "deleteFile_body E filename config s =
     (case priv_genai s of
        None \<Rightarrow> (Throw FileNotFound, s)
      | Some g \<Rightarrow>
          (let (p, s1) = invoke E (Files_delete g filename config) s in
             (case await p of
                Inl e \<Rightarrow> (Throw e, s1)
              | Inr response \<Rightarrow>
                  if \<not> truthy response then (Throw FileNotFound, s1)
                  else (ReturnValue response, s1))))"

definition deleteFile :: "env \<Rightarrow> string \<Rightarrow> string option \<Rightarrow> Init \<Rightarrow> promise \<times> Init" where
  "deleteFile E filename config s = async (deleteFile_body E filename config s)"

section \<open>Sequences of operations on one instance\<close>

text \<open>Every public member of the class, with its arguments.\<close>

datatype op =
    Get_apiKey
  | Set_apiKey string
  | Get_models
  | Get_options
  | Get_chatSession
  | Call_createChatSession
  | Call_generateContent string "string option"
  | Call_generateContentStream string "string option"
  | Call_generateImages string "string option"
  | Call_generateVideos string "string option"
  | Call_computeTokens string "string option"
  | Call_countTokens string "string option"
  | Call_embedContent string "string option"
  | Call_chatMessage string
  | Call_chatMessageStream string
  | Call_uploadFile string "string option"
  | Call_getFile string "string option"
  | Call_deleteFile string "string option"

text \<open>The state an operation leaves, whatever it returns or throws.\<close>

fun step :: "env \<Rightarrow> op \<Rightarrow> Init \<Rightarrow> Init" where
  "step E Get_apiKey s = s"
| "step E (Set_apiKey v) s = set_apiKey v s"
| "step E Get_models s = snd (models s)"
| "step E Get_options s = s"
| "step E Get_chatSession s = snd (chatSession E s)"
| "step E Call_createChatSession s = snd (createChatSession E s)"
| "step E (Call_generateContent c cfg) s = snd (generateContent E c cfg s)"
| "step E (Call_generateContentStream c cfg) s = snd (generateContentStream E c cfg s)"
| "step E (Call_generateImages c cfg) s = snd (generateImages E c cfg s)"
| "step E (Call_generateVideos c cfg) s = snd (generateVideos E c cfg s)"
| "step E (Call_computeTokens c cfg) s = snd (computeTokens E c cfg s)"
| "step E (Call_countTokens c cfg) s = snd (countTokens E c cfg s)"
| "step E (Call_embedContent c cfg) s = snd (embedContent E c cfg s)"
| "step E (Call_chatMessage m) s = snd (chatMessage E m s)"
| "step E (Call_chatMessageStream m) s = snd (chatMessageStream E m s)"
| "step E (Call_uploadFile f cfg) s = snd (uploadFile E f cfg s)"
| "step E (Call_getFile n cfg) s = snd (getFile E n cfg s)"
| "step E (Call_deleteFile n cfg) s = snd (deleteFile E n cfg s)"

fun run :: "env \<Rightarrow> op list \<Rightarrow> Init \<Rightarrow> Init" where
  "run E [] s = s"
| "run E (x # xs) s = run E xs (step E x s)"

text \<open>The handle the constructor builds in world \<open>w\<close> for credential \<open>k\<close> and options \<open>opts\<close>.\<close>

definition built_handle :: "string \<Rightarrow> GoogleGenAIOptions option \<Rightarrow> world \<Rightarrow> GoogleGenAI" where
  "built_handle k opts w =
     GoogleGenAI (next_oid w) ((case opts of None \<Rightarrow> empty_options | Some b \<Rightarrow> b)\<lparr>apiKey := Some k\<rparr>)"

text \<open>A call made on the handle \<open>g\<close>, or on a chat created from it.\<close>

fun on_handle :: "GoogleGenAI \<Rightarrow> ext_call \<Rightarrow> bool" where
  "on_handle g (New_GoogleGenAI opts) = False"
| "on_handle g (Chats_create h m) = (h = g)"
| "on_handle g (Models_call h f m c cfg) = (h = g)"
| "on_handle g (Chat_sendMessage c m) = (chat_client c = g)"
| "on_handle g (Chat_sendMessageStream c m) = (chat_client c = g)"
| "on_handle g (Files_upload h f cfg) = (h = g)"
| "on_handle g (Files_get h n cfg) = (h = g)"
| "on_handle g (Files_delete h n cfg) = (h = g)"

text \<open>The generation operation of the facade that calls \<^verbatim>\<open>models.f\<close>.\<close>

fun generation :: "models_op \<Rightarrow> env \<Rightarrow> string \<Rightarrow> string option \<Rightarrow> Init \<Rightarrow> promise \<times> Init" where
  "generation MGenerateContent = generateContent"
| "generation MGenerateContentStream = generateContentStream"
| "generation MGenerateImages = generateImages"
| "generation MGenerateVideos = generateVideos"
| "generation MComputeTokens = computeTokens"
| "generation MCountTokens = countTokens"
| "generation MEmbedContent = embedContent"

text \<open>
  The awaited form of \<^verbatim>\<open>computeTokens\<close>, as \<^verbatim>\<open>countTokens\<close> is written:
  \<^verbatim>\<open>const res = await this.models.computeTokens({...}); return res\<close>.
\<close>

definition computeTokens_awaited_body :: "env \<Rightarrow> string \<Rightarrow> string option \<Rightarrow> Init \<Rightarrow> completion \<times> Init" where
  "computeTokens_awaited_body E contents config s =
     (if priv_apiKey s = [] then (Throw ApiKeyNotSet, s)
      else (let (g, s1) = ensure_genai s in
        (case models s1 of
           (Inl e, s2) \<Rightarrow> (Throw e, s2)
         | (Inr m, s2) \<Rightarrow>
             (let (p, s3) = invoke E (Models_call m MComputeTokens (priv_modelVariant s2) contents config) s2
              in (case await p of
                    Inl e \<Rightarrow> (Throw e, s3)
                  | Inr res \<Rightarrow> (ReturnValue res, s3))))))"

definition computeTokens_awaited :: "env \<Rightarrow> string \<Rightarrow> string option \<Rightarrow> Init \<Rightarrow> promise \<times> Init" where
  "computeTokens_awaited E contents config s = async (computeTokens_awaited_body E contents config s)"

text \<open>With a client in place, a generation operation is its guard and one call.\<close>

definition guarded_call :: "env \<Rightarrow> ext_call \<Rightarrow> Init \<Rightarrow> promise \<times> Init" where
  "guarded_call E c s =
     (if priv_apiKey s = [] then (Rejected ApiKeyNotSet, s)
      else (promise_of (respond E (trace s) c), s\<lparr>trace := trace s @ [c]\<rparr>))"

text \<open>With a client in place, a file operation is one call and the test of its result.\<close>

definition checked_call :: "env \<Rightarrow> error \<Rightarrow> ext_call \<Rightarrow> Init \<Rightarrow> promise \<times> Init" where
  "checked_call E e c s =
     ((case respond E (trace s) c of
         Throws m \<Rightarrow> Rejected (External m)
       | Resolves v \<Rightarrow> if truthy v then Fulfilled v else Rejected e),
      s\<lparr>trace := trace s @ [c]\<rparr>)"

text \<open>
  What holds of an instance from its construction on: it has the client \<open>g\<close>, built from
  its options; the chat field and the session slot are filled together and hold the same
  chat, created from \<open>g\<close>, under an identifier that was drawn; and after the calls
  \<open>pre\<close> every call was made on \<open>g\<close>.
\<close>

definition coherent :: "env \<Rightarrow> ext_call list \<Rightarrow> GoogleGenAI \<Rightarrow> Init \<Rightarrow> bool" where
  "coherent E pre g s \<longleftrightarrow>
     priv_genai s = Some g
   \<and> priv_options s = genai_options g
   \<and> (chat s = None \<longleftrightarrow> priv_session s = None)
   \<and> (\<forall>ss. priv_session s = Some ss \<longrightarrow>
         chat_of ss = chat s \<and> (\<exists>n<uuid_draws s. id_of ss = randomUUID E n))
   \<and> (\<forall>c. chat s = Some c \<longrightarrow> chat_client c = g \<and> chat_oid c < next_oid s)
   \<and> (\<exists>calls. trace s = pre @ calls \<and> list_all (on_handle g) calls)"

text \<open>
  Two fake SDKs and a world to run them in: one answers every call with the same
  object, the other with \<^verbatim>\<open>undefined\<close>. The n-th UUID is a string of length n + 1.
\<close>

definition canned_env :: env where
  "canned_env = \<lparr>respond = (\<lambda>h c. Resolves (JObj ''canned'')),
                 randomUUID = (\<lambda>n. replicate (Suc n) (CHR ''u''))\<rparr>"

definition silent_env :: env where
  "silent_env = \<lparr>respond = (\<lambda>h c. Resolves JUndefined),
                 randomUUID = (\<lambda>n. replicate (Suc n) (CHR ''u''))\<rparr>"

definition empty_world :: world where
  "empty_world = \<lparr>trace = [], next_oid = 0, uuid_draws = 0\<rparr>"

text \<open>The members that read or write the session slot.\<close>

fun uses_chatSession :: "op \<Rightarrow> bool" where
  "uses_chatSession Get_chatSession = True"
| "uses_chatSession Call_createChatSession = True"
| "uses_chatSession (Call_chatMessage m) = True"
| "uses_chatSession (Call_chatMessageStream m) = True"
| "uses_chatSession x = False"



section \<open>Properties of the operations\<close>

lemma async_awaited [simp]:
  "async (case await p of Inl e \<Rightarrow> (Throw e, s) | Inr res \<Rightarrow> (ReturnValue res, s)) = (p, s)"
  by (cases p) (simp_all add: async_def)

lemma async_unawaited [simp]: "async (ReturnPromise p, s) = (p, s)"
  by (simp add: async_def)

lemma async_Throw [simp]: "async (Throw e, s) = (Rejected e, s)"
  by (simp add: async_def)

lemma async_ReturnValue [simp]: "async (ReturnValue v, s) = (Fulfilled v, s)"
  by (simp add: async_def)

lemma ensure_genai_Some: "priv_genai s = Some g \<Longrightarrow> ensure_genai s = (g, s)"
  by (simp add: ensure_genai_def)

lemma ensure_genai_apiKey [simp]: "priv_apiKey (snd (ensure_genai s)) = priv_apiKey s"
  by (simp add: ensure_genai_def new_GoogleGenAI_def split: option.splits)

lemma models_Some:
  "priv_genai s = Some g \<Longrightarrow>
   models s = (if priv_apiKey s = [] then (Inl ApiKeyNotSet, s) else (Inr g, s))"
  by (simp add: models_def ensure_genai_Some)

lemma invoke_fields:
  "priv_genai (snd (invoke E c s)) = priv_genai s"
  "priv_apiKey (snd (invoke E c s)) = priv_apiKey s"
  "priv_options (snd (invoke E c s)) = priv_options s"
  "priv_modelVariant (snd (invoke E c s)) = priv_modelVariant s"
  "chat (snd (invoke E c s)) = chat s"
  "priv_session (snd (invoke E c s)) = priv_session s"
  "next_oid (snd (invoke E c s)) = next_oid s"
  "uuid_draws (snd (invoke E c s)) = uuid_draws s"
  "trace (snd (invoke E c s)) = trace s @ [c]"
  by (simp_all add: invoke_def)

lemma coherent_invoke:
  "coherent E pre g s \<Longrightarrow> on_handle g c \<Longrightarrow> coherent E pre g (snd (invoke E c s))"
  unfolding coherent_def invoke_fields by auto

lemma generateContent_Some:
  "priv_genai s = Some g \<Longrightarrow>
   generateContent E c cfg s = guarded_call E (Models_call g MGenerateContent (priv_modelVariant s) c cfg) s"
  by (simp add: generateContent_def generateContent_body_def guarded_call_def ensure_genai_Some models_Some invoke_def)

lemma generateContentStream_Some:
  "priv_genai s = Some g \<Longrightarrow>
   generateContentStream E c cfg s = guarded_call E (Models_call g MGenerateContentStream (priv_modelVariant s) c cfg) s"
  by (simp add: generateContentStream_def generateContentStream_body_def guarded_call_def ensure_genai_Some models_Some invoke_def)

lemma generateImages_Some:
  "priv_genai s = Some g \<Longrightarrow>
   generateImages E c cfg s = guarded_call E (Models_call g MGenerateImages (priv_modelVariant s) c cfg) s"
  by (simp add: generateImages_def generateImages_body_def guarded_call_def ensure_genai_Some models_Some invoke_def)

lemma generateVideos_Some:
  "priv_genai s = Some g \<Longrightarrow>
   generateVideos E c cfg s = guarded_call E (Models_call g MGenerateVideos (priv_modelVariant s) c cfg) s"
  by (simp add: generateVideos_def generateVideos_body_def guarded_call_def ensure_genai_Some models_Some invoke_def)

lemma computeTokens_Some:
  "priv_genai s = Some g \<Longrightarrow>
   computeTokens E c cfg s = guarded_call E (Models_call g MComputeTokens (priv_modelVariant s) c cfg) s"
  by (simp add: computeTokens_def computeTokens_body_def guarded_call_def ensure_genai_Some models_Some invoke_def)

lemma countTokens_Some:
  "priv_genai s = Some g \<Longrightarrow>
   countTokens E c cfg s = guarded_call E (Models_call g MCountTokens (priv_modelVariant s) c cfg) s"
  by (simp add: countTokens_def countTokens_body_def guarded_call_def ensure_genai_Some models_Some invoke_def)

lemma embedContent_Some:
  "priv_genai s = Some g \<Longrightarrow>
   embedContent E c cfg s = guarded_call E (Models_call g MEmbedContent (priv_modelVariant s) c cfg) s"
  by (simp add: embedContent_def embedContent_body_def guarded_call_def ensure_genai_Some models_Some invoke_def)

lemmas generation_Some =
  generateContent_Some generateContentStream_Some generateImages_Some generateVideos_Some
  computeTokens_Some countTokens_Some embedContent_Some

lemma coherent_guarded_call:
  "coherent E pre g s \<Longrightarrow> on_handle g c \<Longrightarrow> coherent E pre g (snd (guarded_call E c s))"
  by (auto simp: coherent_def guarded_call_def)

lemma uploadFile_Some:
  "priv_genai s = Some g \<Longrightarrow>
   uploadFile E f cfg s = checked_call E UploadFailed (Files_upload g f cfg) s"
  by (cases "respond E (trace s) (Files_upload g f cfg)")
     (simp_all add: uploadFile_def uploadFile_body_def checked_call_def invoke_def)

lemma getFile_Some:
  "priv_genai s = Some g \<Longrightarrow>
   getFile E n cfg s = checked_call E FileNotFound (Files_get g n cfg) s"
  by (cases "respond E (trace s) (Files_get g n cfg)")
     (simp_all add: getFile_def getFile_body_def checked_call_def invoke_def)

lemma deleteFile_Some:
  "priv_genai s = Some g \<Longrightarrow>
   deleteFile E n cfg s = checked_call E FileNotFound (Files_delete g n cfg) s"
  by (cases "respond E (trace s) (Files_delete g n cfg)")
     (simp_all add: deleteFile_def deleteFile_body_def checked_call_def invoke_def)

lemma coherent_checked_call:
  "coherent E pre g s \<Longrightarrow> on_handle g c \<Longrightarrow> coherent E pre g (snd (checked_call E e c s))"
  by (auto simp: coherent_def checked_call_def)

lemma coherent_constructor:
  "coherent E (trace w @ [New_GoogleGenAI (genai_options (built_handle k opts w))])
     (built_handle k opts w) (constructor k opts c m w)"
  by (simp add: coherent_def constructor_def new_GoogleGenAI_def built_handle_def Let_def)

lemma coherent_createChatSession:
  assumes "priv_genai s = Some g" and "priv_options s = genai_options g"
    and "\<exists>calls. trace s = pre @ calls \<and> list_all (on_handle g) calls"
  shows "coherent E pre g (snd (createChatSession E s))"
  using assms
  by (auto simp: coherent_def createChatSession_def chats_create_def Let_def split: prod.splits)

lemma chatSession_cached:
  "chat s \<noteq> None \<Longrightarrow> priv_session s = Some ss \<Longrightarrow> chatSession E s = (ss, s)"
  by (auto simp: chatSession_def)

lemma chatSession_first:
  "priv_genai s = Some g \<Longrightarrow> chat s = None \<Longrightarrow> priv_session s = None \<Longrightarrow>
   chatSession E s =
     createChatSession E ((snd (chats_create s))\<lparr>chat := fst (chats_create s)\<rparr>)"
  by (simp add: chatSession_def chats_create_def Let_def)

lemma coherent_chatSession:
  assumes "coherent E pre g s"
  shows "coherent E pre g (snd (chatSession E s))"
proof (cases "priv_session s")
  case None
  with assms have c: "chat s = None" and g: "priv_genai s = Some g"
    by (simp_all add: coherent_def)
  have "coherent E pre g
          (snd (createChatSession E ((snd (chats_create s))\<lparr>chat := fst (chats_create s)\<rparr>)))"
    using assms g by (intro coherent_createChatSession) (auto simp: coherent_def chats_create_def)
  then show ?thesis by (simp add: chatSession_first [OF g c None])
next
  case (Some ss)
  with assms have "chat s \<noteq> None" by (simp add: coherent_def)
  then show ?thesis using Some assms by (simp add: chatSession_cached)
qed

lemma chatSession_chat_of:
  assumes "coherent E pre g s"
  shows "\<exists>c. chat_of (fst (chatSession E s)) = Some c \<and> chat_client c = g"
proof (cases "priv_session s")
  case None
  with assms have c: "chat s = None" and g: "priv_genai s = Some g"
    by (simp_all add: coherent_def)
  show ?thesis
    by (simp add: chatSession_first [OF g c None])
       (simp add: createChatSession_def chats_create_def g Let_def)
next
  case (Some ss)
  with assms have "chat s \<noteq> None" "chat_of ss = chat s" "\<forall>c. chat s = Some c \<longrightarrow> chat_client c = g"
    by (simp_all add: coherent_def)
  then show ?thesis using Some by (auto simp: chatSession_cached)
qed

lemma coherent_chatMessage:
  assumes "coherent E pre g s"
  shows "coherent E pre g (snd (chatMessage E m s))"
proof -
  obtain c where c: "chat_of (fst (chatSession E s)) = Some c" "chat_client c = g"
    using chatSession_chat_of [OF assms] by blast
  have "snd (chatMessage E m s) = snd (invoke E (Chat_sendMessage c m) (snd (chatSession E s)))"
    using c by (simp add: chatMessage_def chatMessage_body_def case_prod_beta)
  then show ?thesis
    using coherent_invoke [OF coherent_chatSession [OF assms], of "Chat_sendMessage c m"] c
    by simp
qed

lemma coherent_chatMessageStream:
  assumes "coherent E pre g s"
  shows "coherent E pre g (snd (chatMessageStream E m s))"
proof -
  obtain c where c: "chat_of (fst (chatSession E s)) = Some c" "chat_client c = g"
    using chatSession_chat_of [OF assms] by blast
  have "snd (chatMessageStream E m s) = snd (invoke E (Chat_sendMessageStream c m) (snd (chatSession E s)))"
    using c by (simp add: chatMessageStream_def chatMessageStream_body_def case_prod_beta)
  then show ?thesis
    using coherent_invoke [OF coherent_chatSession [OF assms], of "Chat_sendMessageStream c m"] c
    by simp
qed

lemma coherent_set_apiKey: "coherent E pre g s \<Longrightarrow> coherent E pre g (set_apiKey v s)"
  by (simp add: coherent_def set_apiKey_def)

lemma coherent_step:
  assumes "coherent E pre g s"
  shows "coherent E pre g (step E x s)"
proof -
  have g: "priv_genai s = Some g" using assms by (simp add: coherent_def)
  have o: "priv_options s = genai_options g" using assms by (simp add: coherent_def)
  have t: "\<exists>calls. trace s = pre @ calls \<and> list_all (on_handle g) calls"
    using assms by (simp add: coherent_def)
  show ?thesis
  proof (cases x)
    case Get_chatSession
    then show ?thesis using assms by (simp add: coherent_chatSession)
  next
    case Call_createChatSession
    then show ?thesis using coherent_createChatSession [OF g o t] by simp
  next
    case (Call_chatMessage m)
    then show ?thesis using assms by (simp add: coherent_chatMessage)
  next
    case (Call_chatMessageStream m)
    then show ?thesis using assms by (simp add: coherent_chatMessageStream)
  qed (use assms g in \<open>simp_all add: coherent_set_apiKey models_Some generation_Some
        uploadFile_Some getFile_Some deleteFile_Some coherent_guarded_call coherent_checked_call\<close>)
qed

lemma coherent_run: "coherent E pre g s \<Longrightarrow> coherent E pre g (run E xs s)"
  by (induction xs arbitrary: s) (simp_all add: coherent_step)

lemma coherent_instance:
  "coherent E (trace w @ [New_GoogleGenAI (genai_options (built_handle k opts w))])
     (built_handle k opts w) (run E xs (constructor k opts c m w))"
  by (rule coherent_run [OF coherent_constructor])




lemma createChatSession_slot:
  "priv_session (snd (createChatSession E s)) = Some (fst (createChatSession E s))"
  "chat (snd (createChatSession E s)) = chat_of (fst (createChatSession E s))"
  by (simp_all add: createChatSession_def Let_def case_prod_beta)

lemma chatSession_slot:
  assumes "coherent E pre g s"
  shows "priv_session (snd (chatSession E s)) = Some (fst (chatSession E s))"
    and "chat (snd (chatSession E s)) = chat_of (fst (chatSession E s))"
proof -
  have "priv_session (snd (chatSession E s)) = Some (fst (chatSession E s))
        \<and> chat (snd (chatSession E s)) = chat_of (fst (chatSession E s))"
  proof (cases "priv_session s")
    case None
    with assms have c: "chat s = None" and g: "priv_genai s = Some g"
      by (simp_all add: coherent_def)
    show ?thesis
      by (simp add: chatSession_first [OF g c None] createChatSession_slot)
  next
    case (Some ss)
    with assms have "chat s \<noteq> None" "chat_of ss = chat s"
      by (simp_all add: coherent_def)
    then show ?thesis using Some by (simp add: chatSession_cached)
  qed
  then show "priv_session (snd (chatSession E s)) = Some (fst (chatSession E s))"
    and "chat (snd (chatSession E s)) = chat_of (fst (chatSession E s))"
    by simp_all
qed

lemma step_session_other:
  assumes "coherent E pre g s" and "\<not> uses_chatSession x"
  shows "priv_session (step E x s) = priv_session s"
proof -
  have g: "priv_genai s = Some g" using assms(1) by (simp add: coherent_def)
  show ?thesis
    using assms(2)
    by (cases x)
       (simp_all add: set_apiKey_def models_Some [OF g] generation_Some [OF g]
          uploadFile_Some [OF g] getFile_Some [OF g] deleteFile_Some [OF g]
          guarded_call_def checked_call_def)
qed

lemma step_session_cached:
  assumes "coherent E pre g s" and "priv_session s = Some ss" and "x \<noteq> Call_createChatSession"
  shows "priv_session (step E x s) = Some ss"
proof (cases "uses_chatSession x")
  case False
  then show ?thesis using step_session_other [OF assms(1)] assms(2) by simp
next
  case True
  from assms(1,2) obtain c where c: "chat s = Some c" "chat_of ss = Some c"
    by (auto simp: coherent_def)
  then have r: "chatSession E s = (ss, s)"
    using assms(2) by (simp add: chatSession_cached)
  show ?thesis
    using True assms(2,3) c
    by (cases x) (simp_all add: r chatMessage_def chatMessageStream_def chatMessage_body_def chatMessageStream_body_def invoke_def)
qed

lemma empty_credential_guard:
  "priv_apiKey s = [] \<Longrightarrow> generation f E x cfg s = (Rejected ApiKeyNotSet, s)"
  by (cases f)
     (simp_all add: generateContent_def generateContentStream_def generateImages_def
        generateVideos_def computeTokens_def countTokens_def embedContent_def
        generateContent_body_def generateContentStream_body_def generateImages_body_def
        generateVideos_body_def computeTokens_body_def countTokens_body_def embedContent_body_def)

lemma empty_credential_models: "priv_apiKey s = [] \<Longrightarrow> models s = (Inl ApiKeyNotSet, s)"
  by (simp add: models_def)

lemma inj_canned_uuid: "inj (randomUUID canned_env)"
  by (simp add: canned_env_def inj_def)

lemma chatting_session:
  "priv_session (run canned_env [Get_chatSession] (constructor ''key'' None None None empty_world))
     = Some \<lparr>chat_of = Some (Chat 2 (GoogleGenAI 0 \<lparr>apiKey = Some ''key'', others = []\<rparr>) Gemini_1_5_flash),
             id_of = ''u''\<rparr>"
  by (simp add: constructor_def new_GoogleGenAI_def chatSession_def chats_create_def
      createChatSession_def empty_world_def empty_options_def canned_env_def Let_def)

section \<open>The claims\<close>

text \<open>
  C1. With the empty string as credential the seven generation operations and the getter
  \<^verbatim>\<open>models\<close> throw "API key is not set." before any call (the two lemmas on the empty
  credential above, for every state). The file and chat operations have no such test:
  on an instance constructed with \<^verbatim>\<open>""\<close>, \<^verbatim>\<open>uploadFile\<close>, \<^verbatim>\<open>getFile\<close>,
  \<^verbatim>\<open>deleteFile\<close>, \<^verbatim>\<open>chatMessage\<close> and \<^verbatim>\<open>chatMessageStream\<close> make their calls on
  the SDK and return its answer, where \<^verbatim>\<open>generateContent\<close> on the same instance
  throws and leaves the state alone.
\<close>

theorem empty_credential_reaches_sdk:
  "fst (uploadFile canned_env ''a.png'' None (constructor [] None None None empty_world))
     = Fulfilled (JObj ''canned'')
   \<and> trace (snd (uploadFile canned_env ''a.png'' None (constructor [] None None None empty_world)))
     = [New_GoogleGenAI \<lparr>apiKey = Some [], others = []\<rparr>,
        Files_upload (GoogleGenAI 0 \<lparr>apiKey = Some [], others = []\<rparr>) ''a.png'' None]
   \<and> trace (snd (getFile canned_env ''a.png'' None (constructor [] None None None empty_world)))
     = [New_GoogleGenAI \<lparr>apiKey = Some [], others = []\<rparr>,
        Files_get (GoogleGenAI 0 \<lparr>apiKey = Some [], others = []\<rparr>) ''a.png'' None]
   \<and> trace (snd (deleteFile canned_env ''a.png'' None (constructor [] None None None empty_world)))
     = [New_GoogleGenAI \<lparr>apiKey = Some [], others = []\<rparr>,
        Files_delete (GoogleGenAI 0 \<lparr>apiKey = Some [], others = []\<rparr>) ''a.png'' None]
   \<and> fst (chatMessage canned_env ''hello'' (constructor [] None None None empty_world))
     = Fulfilled (JObj ''canned'')
   \<and> trace (snd (chatMessage canned_env ''hello'' (constructor [] None None None empty_world)))
     = [New_GoogleGenAI \<lparr>apiKey = Some [], others = []\<rparr>,
        Chats_create (GoogleGenAI 0 \<lparr>apiKey = Some [], others = []\<rparr>) Gemini_1_5_flash,
        Chats_create (GoogleGenAI 0 \<lparr>apiKey = Some [], others = []\<rparr>) Gemini_1_5_flash,
        Chat_sendMessage (Chat 2 (GoogleGenAI 0 \<lparr>apiKey = Some [], others = []\<rparr>) Gemini_1_5_flash) ''hello'']
   \<and> trace (snd (chatMessageStream canned_env ''hello'' (constructor [] None None None empty_world)))
     = [New_GoogleGenAI \<lparr>apiKey = Some [], others = []\<rparr>,
        Chats_create (GoogleGenAI 0 \<lparr>apiKey = Some [], others = []\<rparr>) Gemini_1_5_flash,
        Chats_create (GoogleGenAI 0 \<lparr>apiKey = Some [], others = []\<rparr>) Gemini_1_5_flash,
        Chat_sendMessageStream (Chat 2 (GoogleGenAI 0 \<lparr>apiKey = Some [], others = []\<rparr>) Gemini_1_5_flash) ''hello'']
   \<and> generateContent canned_env ''hi'' None (constructor [] None None None empty_world)
     = (Rejected ApiKeyNotSet, constructor [] None None None empty_world)"
  by (simp add: constructor_def new_GoogleGenAI_def empty_world_def empty_options_def canned_env_def
      uploadFile_def getFile_def deleteFile_def chatMessage_def chatMessageStream_def
      uploadFile_body_def getFile_body_def deleteFile_body_def chatMessage_body_def
      chatMessageStream_body_def generateContent_body_def
      chatSession_def createChatSession_def chats_create_def generateContent_def
      invoke_def Let_def)



text \<open>
  C3. The credential setter changes the stored credential and nothing else: the
  configuration bag, with its credential entry, and the client handle are as they were,
  and so is every other field (no call is made on the SDK).
\<close>

theorem set_apiKey_changes_only_credential:
  "get_apiKey (set_apiKey v s) = v
   \<and> get_options (set_apiKey v s) = get_options s
   \<and> apiKey (priv_options (set_apiKey v s)) = apiKey (priv_options s)
   \<and> priv_genai (set_apiKey v s) = priv_genai s
   \<and> set_apiKey v s = s\<lparr>priv_apiKey := v\<rparr>"
  by (simp add: set_apiKey_def get_apiKey_def get_options_def)

text \<open>
  C4. When the identifiers drawn are pairwise distinct and a session is cached in a
  constructed instance, reading \<^verbatim>\<open>chatSession\<close> returns the cached pair and leaves the
  state alone; an operation changes the cached identifier exactly when it is
  \<^verbatim>\<open>createChatSession\<close>, which writes its new pair into the slot and the chat field,
  with an identifier and a chat that differ from the cached ones.
\<close>

theorem chatSession_identifier_stable:
  assumes "inj (randomUUID E)"
    and "s = run E xs (constructor k opts c m w)"
    and "priv_session s = Some ss"
  shows "chatSession E s = (ss, s)
       \<and> (\<forall>x. (map_option id_of (priv_session (step E x s)) \<noteq> Some (id_of ss))
                = (x = Call_createChatSession))
       \<and> priv_session (snd (createChatSession E s)) = Some (fst (createChatSession E s))
       \<and> chat (snd (createChatSession E s)) = chat_of (fst (createChatSession E s))
       \<and> id_of (fst (createChatSession E s)) \<noteq> id_of ss
       \<and> chat_of (fst (createChatSession E s)) \<noteq> chat_of ss"
proof -
  let ?g = "built_handle k opts w"
  have co: "coherent E (trace w @ [New_GoogleGenAI (genai_options ?g)]) ?g s"
    unfolding assms(2) by (rule coherent_instance)
  from co assms(3) obtain c0 n where g: "priv_genai s = Some ?g"
      and c0: "chat s = Some c0" "chat_of ss = Some c0" "chat_oid c0 < next_oid s"
      and n: "n < uuid_draws s" "id_of ss = randomUUID E n"
    by (auto simp: coherent_def)
  have cached: "chatSession E s = (ss, s)"
    using c0 assms(3) by (simp add: chatSession_cached)
  have "randomUUID E (uuid_draws s) \<noteq> randomUUID E n"
    using n(1) assms(1) by (auto dest: injD)
  then have new_id: "id_of (fst (createChatSession E s)) \<noteq> id_of ss"
    by (simp add: createChatSession_def chats_create_def g n(2) Let_def)
  have new_chat: "chat_of (fst (createChatSession E s)) \<noteq> chat_of ss"
    using c0 by (auto simp: createChatSession_def chats_create_def g Let_def)
  have changes: "(map_option id_of (priv_session (step E x s)) \<noteq> Some (id_of ss))
                = (x = Call_createChatSession)" for x
  proof (cases "x = Call_createChatSession")
    case True
    then show ?thesis using new_id by (simp add: createChatSession_slot)
  next
    case False
    then show ?thesis using step_session_cached [OF co assms(3) False] by simp
  qed
  show ?thesis
    using cached changes new_id new_chat by (simp add: createChatSession_slot)
qed

theorem chatSession_identifier_stable_witness:
  "inj (randomUUID canned_env)
   \<and> priv_session (run canned_env [Get_chatSession] (constructor ''key'' None None None empty_world))
       = Some \<lparr>chat_of = Some (Chat 2 (GoogleGenAI 0 \<lparr>apiKey = Some ''key'', others = []\<rparr>) Gemini_1_5_flash),
               id_of = ''u''\<rparr>
   \<and> fst (chatSession canned_env
         (run canned_env [Get_chatSession] (constructor ''key'' None None None empty_world)))
       = \<lparr>chat_of = Some (Chat 2 (GoogleGenAI 0 \<lparr>apiKey = Some ''key'', others = []\<rparr>) Gemini_1_5_flash),
          id_of = ''u''\<rparr>
   \<and> map_option id_of (priv_session (step canned_env (Call_chatMessage ''hello'')
         (run canned_env [Get_chatSession] (constructor ''key'' None None None empty_world))))
       = Some ''u''
   \<and> id_of (fst (createChatSession canned_env
         (run canned_env [Get_chatSession] (constructor ''key'' None None None empty_world))))
       \<noteq> ''u''
   \<and> chat_of (fst (createChatSession canned_env
         (run canned_env [Get_chatSession] (constructor ''key'' None None None empty_world))))
       \<noteq> Some (Chat 2 (GoogleGenAI 0 \<lparr>apiKey = Some ''key'', others = []\<rparr>) Gemini_1_5_flash)"
proof -
  note th = chatSession_identifier_stable [OF inj_canned_uuid refl chatting_session]
  have "map_option id_of (priv_session (step canned_env (Call_chatMessage ''hello'')
         (run canned_env [Get_chatSession] (constructor ''key'' None None None empty_world))))
       = Some ''u''"
    using th [THEN conjunct2, THEN conjunct1, THEN spec, of "Call_chatMessage ''hello''"]
    by (simp del: run.simps step.simps)
  then show ?thesis
    using th inj_canned_uuid chatting_session by (simp del: run.simps step.simps)
qed

text \<open>
  C5. In a constructed instance, after any sequence of operations, the chat field and the
  session slot hold the same chat or are both empty; the getter \<^verbatim>\<open>chatSession\<close> and
  \<^verbatim>\<open>createChatSession\<close> both leave the pair they return in that slot; no operation
  empties a filled slot; and only the members that go through the session getter or
  \<^verbatim>\<open>createChatSession\<close> change it.
\<close>

theorem single_cached_session:
  assumes "s = run E xs (constructor k opts c m w)"
  shows "(case priv_session s of None \<Rightarrow> chat s = None
          | Some ss \<Rightarrow> chat s = chat_of ss \<and> chat s \<noteq> None)
       \<and> priv_session (snd (chatSession E s)) = Some (fst (chatSession E s))
       \<and> chat (snd (chatSession E s)) = chat_of (fst (chatSession E s))
       \<and> priv_session (snd (createChatSession E s)) = Some (fst (createChatSession E s))
       \<and> chat (snd (createChatSession E s)) = chat_of (fst (createChatSession E s))
       \<and> (\<forall>x. priv_session s \<noteq> None \<longrightarrow> priv_session (step E x s) \<noteq> None)
       \<and> (\<forall>x. priv_session (step E x s) \<noteq> priv_session s \<longrightarrow> uses_chatSession x)"
proof -
  let ?g = "built_handle k opts w"
  have co: "coherent E (trace w @ [New_GoogleGenAI (genai_options ?g)]) ?g s"
    unfolding assms by (rule coherent_instance)
  have one: "case priv_session s of None \<Rightarrow> chat s = None
          | Some ss \<Rightarrow> chat s = chat_of ss \<and> chat s \<noteq> None"
    using co by (auto simp: coherent_def split: option.splits)
  have kept: "priv_session (step E x s) \<noteq> None" if "priv_session s \<noteq> None" for x
  proof (cases "x = Call_createChatSession")
    case True
    then show ?thesis by (simp add: createChatSession_slot)
  next
    case False
    from that obtain ss where "priv_session s = Some ss" by blast
    then show ?thesis using step_session_cached [OF co _ False] by simp
  qed
  have other: "uses_chatSession x" if "priv_session (step E x s) \<noteq> priv_session s" for x
    using that step_session_other [OF co] by blast
  show ?thesis
    using one kept other by (simp add: createChatSession_slot chatSession_slot [OF co])
qed

theorem single_cached_session_witness:
  "priv_session (run canned_env [Get_chatSession] (constructor ''key'' None None None empty_world)) \<noteq> None
   \<and> priv_session (step canned_env Call_createChatSession
        (run canned_env [Get_chatSession] (constructor ''key'' None None None empty_world))) \<noteq> None
   \<and> priv_session (step canned_env (Call_uploadFile ''a.png'' None)
        (run canned_env [Get_chatSession] (constructor ''key'' None None None empty_world)))
      = priv_session (run canned_env [Get_chatSession] (constructor ''key'' None None None empty_world))
   \<and> chat (run canned_env [Get_chatSession] (constructor ''key'' None None None empty_world))
      = Some (Chat 2 (GoogleGenAI 0 \<lparr>apiKey = Some ''key'', others = []\<rparr>) Gemini_1_5_flash)"
proof -
  note th = single_cached_session [OF refl, of canned_env "[Get_chatSession]" "''key''" None None None empty_world]
  have a: "priv_session (step canned_env Call_createChatSession
        (run canned_env [Get_chatSession] (constructor ''key'' None None None empty_world))) \<noteq> None"
    using th chatting_session by (simp del: run.simps)
  have b: "priv_session (step canned_env (Call_uploadFile ''a.png'' None)
        (run canned_env [Get_chatSession] (constructor ''key'' None None None empty_world)))
      = priv_session (run canned_env [Get_chatSession] (constructor ''key'' None None None empty_world))"
    using th [THEN conjunct2, THEN conjunct2, THEN conjunct2, THEN conjunct2, THEN conjunct2,
        THEN conjunct2, THEN spec, of "Call_uploadFile ''a.png'' None"]
    by (auto simp del: run.simps step.simps)
  show ?thesis
    using th a b chatting_session by (simp del: run.simps step.simps)
qed

text \<open>
  C6. After construction the configuration bag is the one supplied (or the empty one)
  with the credential entry overwritten by \<open>k\<close>, a client with a fresh number has
  been built from it and recorded as the one call made, and the handle \<open>c\<close> that was
  supplied plays no part: the instance is the same as with none supplied, and after any
  sequence of operations the handle in use is still the built one, which differs from
  every handle that existed before.
\<close>

theorem constructor_overwrites_and_discards:
  "priv_options (constructor k opts c m w)
     = (case opts of None \<Rightarrow> empty_options | Some b \<Rightarrow> b)\<lparr>apiKey := Some k\<rparr>
   \<and> apiKey (priv_options (constructor k opts c m w)) = Some k
   \<and> priv_genai (constructor k opts c m w)
     = Some (GoogleGenAI (next_oid w) (priv_options (constructor k opts c m w)))
   \<and> trace (constructor k opts c m w)
     = trace w @ [New_GoogleGenAI (priv_options (constructor k opts c m w))]
   \<and> constructor k opts c m w = constructor k opts None m w
   \<and> priv_genai (run E xs (constructor k opts c m w)) = priv_genai (constructor k opts c m w)
   \<and> (\<forall>h. c = Some h \<and> genai_oid h < next_oid w
          \<longrightarrow> priv_genai (run E xs (constructor k opts c m w)) \<noteq> c)"
proof -
  let ?g = "built_handle k opts w"
  have "coherent E (trace w @ [New_GoogleGenAI (genai_options ?g)]) ?g
          (run E xs (constructor k opts c m w))"
    by (rule coherent_instance)
  then have g: "priv_genai (run E xs (constructor k opts c m w)) = Some ?g"
    by (simp add: coherent_def)
  have n: "Some ?g \<noteq> Some h" if "genai_oid h < next_oid w" for h
    using that by (auto simp: built_handle_def)
  show ?thesis
    unfolding g using n
    by (simp add: constructor_def new_GoogleGenAI_def built_handle_def Let_def)
qed

theorem constructor_overwrites_and_discards_witness:
  "priv_genai (run canned_env [Call_countTokens ''hi'' None]
      (constructor ''key'' (Some \<lparr>apiKey = Some ''other'', others = [(''apiVersion'', ''v1'')]\<rparr>)
         (Some (GoogleGenAI 0 empty_options)) None \<lparr>trace = [New_GoogleGenAI empty_options], next_oid = 1, uuid_draws = 0\<rparr>))
     = Some (GoogleGenAI 1 \<lparr>apiKey = Some ''key'', others = [(''apiVersion'', ''v1'')]\<rparr>)
   \<and> priv_genai (run canned_env [Call_countTokens ''hi'' None]
      (constructor ''key'' (Some \<lparr>apiKey = Some ''other'', others = [(''apiVersion'', ''v1'')]\<rparr>)
         (Some (GoogleGenAI 0 empty_options)) None \<lparr>trace = [New_GoogleGenAI empty_options], next_oid = 1, uuid_draws = 0\<rparr>))
     \<noteq> Some (GoogleGenAI 0 empty_options)"
  using constructor_overwrites_and_discards [of "''key''"
      "Some \<lparr>apiKey = Some ''other'', others = [(''apiVersion'', ''v1'')]\<rparr>"
      "Some (GoogleGenAI 0 empty_options)" None
      "\<lparr>trace = [New_GoogleGenAI empty_options], next_oid = 1, uuid_draws = 0\<rparr>"
      canned_env "[Call_countTokens ''hi'' None]"]
  by (simp add: constructor_def new_GoogleGenAI_def Let_def)

text \<open>
  C7. On a constructed instance, \<^verbatim>\<open>uploadFile\<close> ends with "Upload failed" exactly when
  \<^verbatim>\<open>files.upload\<close> yields a falsy result, \<^verbatim>\<open>getFile\<close> and \<^verbatim>\<open>deleteFile\<close> end
  with "File not found" exactly when \<^verbatim>\<open>files.get\<close> and \<^verbatim>\<open>files.delete\<close> do; a truthy
  result is returned as it is, and an error thrown by the SDK is passed on.
\<close>

theorem file_operations_results:
  assumes "s = run E xs (constructor k opts c m w)"
  shows "((fst (uploadFile E f cfg s) = Rejected UploadFailed)
            = (\<exists>v. respond E (trace s) (Files_upload (built_handle k opts w) f cfg) = Resolves v \<and> \<not> truthy v))
       \<and> ((fst (getFile E n cfg s) = Rejected FileNotFound)
            = (\<exists>v. respond E (trace s) (Files_get (built_handle k opts w) n cfg) = Resolves v \<and> \<not> truthy v))
       \<and> ((fst (deleteFile E n cfg s) = Rejected FileNotFound)
            = (\<exists>v. respond E (trace s) (Files_delete (built_handle k opts w) n cfg) = Resolves v \<and> \<not> truthy v))
       \<and> (\<forall>v. respond E (trace s) (Files_upload (built_handle k opts w) f cfg) = Resolves v \<and> truthy v
             \<longrightarrow> fst (uploadFile E f cfg s) = Fulfilled v)
       \<and> (\<forall>v. respond E (trace s) (Files_get (built_handle k opts w) n cfg) = Resolves v \<and> truthy v
             \<longrightarrow> fst (getFile E n cfg s) = Fulfilled v)
       \<and> (\<forall>v. respond E (trace s) (Files_delete (built_handle k opts w) n cfg) = Resolves v \<and> truthy v
             \<longrightarrow> fst (deleteFile E n cfg s) = Fulfilled v)
       \<and> (\<forall>e. respond E (trace s) (Files_upload (built_handle k opts w) f cfg) = Throws e
             \<longrightarrow> fst (uploadFile E f cfg s) = Rejected (External e))
       \<and> (\<forall>e. respond E (trace s) (Files_get (built_handle k opts w) n cfg) = Throws e
             \<longrightarrow> fst (getFile E n cfg s) = Rejected (External e))
       \<and> (\<forall>e. respond E (trace s) (Files_delete (built_handle k opts w) n cfg) = Throws e
             \<longrightarrow> fst (deleteFile E n cfg s) = Rejected (External e))"
proof -
  have "coherent E (trace w @ [New_GoogleGenAI (genai_options (built_handle k opts w))])
          (built_handle k opts w) s"
    unfolding assms(1) by (rule coherent_instance)
  then have g: "priv_genai s = Some (built_handle k opts w)"
    by (simp add: coherent_def)
  have u1: "(fst (checked_call E UploadFailed call s) = Rejected UploadFailed)
             = (\<exists>v. respond E (trace s) call = Resolves v \<and> \<not> truthy v)" for call
    by (cases "respond E (trace s) call") (simp_all add: checked_call_def)
  have u2: "(fst (checked_call E FileNotFound call s) = Rejected FileNotFound)
             = (\<exists>v. respond E (trace s) call = Resolves v \<and> \<not> truthy v)" for call
    by (cases "respond E (trace s) call") (simp_all add: checked_call_def)
  have t: "respond E (trace s) call = Resolves v \<and> truthy v
             \<longrightarrow> fst (checked_call E e call s) = Fulfilled v" for e call v
    by (simp add: checked_call_def)
  have x: "respond E (trace s) call = Throws m
             \<longrightarrow> fst (checked_call E e call s) = Rejected (External m)" for e call m
    by (simp add: checked_call_def)
  show ?thesis
    unfolding uploadFile_Some [OF g] getFile_Some [OF g] deleteFile_Some [OF g]
    by (intro conjI allI) (rule u1 u2 t x)+
qed

theorem file_operations_results_witness:
  "fst (uploadFile silent_env ''a.png'' None (run silent_env [] (constructor ''key'' None None None empty_world)))
     = Rejected UploadFailed
   \<and> fst (getFile silent_env ''a.png'' None (run silent_env [] (constructor ''key'' None None None empty_world)))
     = Rejected FileNotFound
   \<and> fst (deleteFile silent_env ''a.png'' None (run silent_env [] (constructor ''key'' None None None empty_world)))
     = Rejected FileNotFound
   \<and> fst (uploadFile canned_env ''a.png'' None (run canned_env [] (constructor ''key'' None None None empty_world)))
     = Fulfilled (JObj ''canned'')
   \<and> fst (getFile canned_env ''a.png'' None (run canned_env [] (constructor ''key'' None None None empty_world)))
     = Fulfilled (JObj ''canned'')
   \<and> fst (deleteFile canned_env ''a.png'' None (run canned_env [] (constructor ''key'' None None None empty_world)))
     = Fulfilled (JObj ''canned'')"
proof -
  have r: "respond silent_env h c = Resolves JUndefined"
    and r': "respond canned_env h c = Resolves (JObj ''canned'')" for h c
    by (simp_all add: silent_env_def canned_env_def)
  show ?thesis
    using file_operations_results [where E = silent_env and xs = "[]" and k = "''key''" and opts = None
        and c = None and m = None and w = empty_world and f = "''a.png''" and cfg = None
        and n = "''a.png''", OF refl]
      file_operations_results [where E = canned_env and xs = "[]" and k = "''key''" and opts = None
        and c = None and m = None and w = empty_world and f = "''a.png''" and cfg = None
        and n = "''a.png''", OF refl]
    by (simp add: r r' del: run.simps)
qed

text \<open>
  C8. On a constructed instance with a non-empty credential, each of the seven
  generation operations makes exactly one call on the models interface of the client,
  with the configured model, the contents and the configuration, and returns what that
  call yields, unchanged: a response \<open>r\<close> comes back as \<open>r\<close>.
\<close>

theorem generation_pass_through:
  assumes "s = run E xs (constructor k opts c m w)" and "priv_apiKey s \<noteq> []"
  shows "generation f E x cfg s =
           (promise_of (respond E (trace s) (Models_call (built_handle k opts w) f (priv_modelVariant s) x cfg)),
            s\<lparr>trace := trace s @ [Models_call (built_handle k opts w) f (priv_modelVariant s) x cfg]\<rparr>)
       \<and> (\<forall>r. respond E (trace s) (Models_call (built_handle k opts w) f (priv_modelVariant s) x cfg) = Resolves r
            \<longrightarrow> fst (generation f E x cfg s) = Fulfilled r)"
proof -
  have "coherent E (trace w @ [New_GoogleGenAI (genai_options (built_handle k opts w))])
          (built_handle k opts w) s"
    unfolding assms(1) by (rule coherent_instance)
  then have g: "priv_genai s = Some (built_handle k opts w)"
    by (simp add: coherent_def)
  show ?thesis
    using assms(2) by (cases f) (simp_all add: generation_Some [OF g] guarded_call_def)
qed

theorem generation_pass_through_witness:
  "priv_apiKey (run canned_env [Get_chatSession] (constructor ''key'' None None (Some Gemini_2_0_flash) empty_world)) \<noteq> []
   \<and> fst (generation MEmbedContent canned_env ''text'' (Some ''cfg'')
        (run canned_env [Get_chatSession] (constructor ''key'' None None (Some Gemini_2_0_flash) empty_world)))
      = Fulfilled (JObj ''canned'')
   \<and> trace (snd (generation MEmbedContent canned_env ''text'' (Some ''cfg'')
        (run canned_env [Get_chatSession] (constructor ''key'' None None (Some Gemini_2_0_flash) empty_world))))
      = trace (run canned_env [Get_chatSession] (constructor ''key'' None None (Some Gemini_2_0_flash) empty_world))
        @ [Models_call (GoogleGenAI 0 \<lparr>apiKey = Some ''key'', others = []\<rparr>) MEmbedContent Gemini_2_0_flash
             ''text'' (Some ''cfg'')]"
proof -
  let ?s = "run canned_env [Get_chatSession] (constructor ''key'' None None (Some Gemini_2_0_flash) empty_world)"
  have k: "priv_apiKey ?s \<noteq> []" and m: "priv_modelVariant ?s = Gemini_2_0_flash"
    by (simp_all add: constructor_def new_GoogleGenAI_def chatSession_def chats_create_def
        createChatSession_def empty_world_def Let_def)
  have b: "built_handle ''key'' None empty_world = GoogleGenAI 0 \<lparr>apiKey = Some ''key'', others = []\<rparr>"
    by (simp add: built_handle_def empty_options_def empty_world_def)
  have r: "respond canned_env h c = Resolves (JObj ''canned'')" for h c
    by (simp add: canned_env_def)
  show ?thesis
    using k generation_pass_through [OF refl k, of MEmbedContent "''text''" "Some ''cfg''"]
    by (simp add: m b r del: run.simps)
qed

text \<open>
  C9. \<^verbatim>\<open>computeTokens\<close> settles exactly as its awaited form does, and leaves the same
  state. With a credential set, its body ends by returning the promise of the SDK; the
  body of no other asynchronous method, and not that of the awaited form, ever does.
\<close>

theorem computeTokens_unawaited_equiv:
  "computeTokens E x cfg s = computeTokens_awaited E x cfg s
   \<and> (priv_apiKey s \<noteq> [] \<longrightarrow> returns_promise (fst (computeTokens_body E x cfg s)))
   \<and> \<not> returns_promise (fst (computeTokens_awaited_body E x cfg s))
   \<and> \<not> returns_promise (fst (generateContent_body E x cfg s))
   \<and> \<not> returns_promise (fst (generateContentStream_body E x cfg s))
   \<and> \<not> returns_promise (fst (generateImages_body E x cfg s))
   \<and> \<not> returns_promise (fst (generateVideos_body E x cfg s))
   \<and> \<not> returns_promise (fst (countTokens_body E x cfg s))
   \<and> \<not> returns_promise (fst (embedContent_body E x cfg s))
   \<and> \<not> returns_promise (fst (chatMessage_body E x s))
   \<and> \<not> returns_promise (fst (chatMessageStream_body E x s))
   \<and> \<not> returns_promise (fst (uploadFile_body E x cfg s))
   \<and> \<not> returns_promise (fst (getFile_body E x cfg s))
   \<and> \<not> returns_promise (fst (deleteFile_body E x cfg s))"
proof -
  have eq: "computeTokens E x cfg s = computeTokens_awaited E x cfg s"
    by (simp add: computeTokens_def computeTokens_awaited_def computeTokens_body_def
        computeTokens_awaited_body_def Let_def split: prod.splits sum.splits)
  have direct: "priv_apiKey s \<noteq> [] \<longrightarrow> returns_promise (fst (computeTokens_body E x cfg s))"
    by (simp add: computeTokens_body_def models_def Let_def case_prod_beta)
  have gen: "\<not> returns_promise (fst (computeTokens_awaited_body E x cfg s))"
    "\<not> returns_promise (fst (generateContent_body E x cfg s))"
    "\<not> returns_promise (fst (generateContentStream_body E x cfg s))"
    "\<not> returns_promise (fst (generateImages_body E x cfg s))"
    "\<not> returns_promise (fst (generateVideos_body E x cfg s))"
    "\<not> returns_promise (fst (countTokens_body E x cfg s))"
    "\<not> returns_promise (fst (embedContent_body E x cfg s))"
    by (simp_all add: computeTokens_awaited_body_def generateContent_body_def
        generateContentStream_body_def generateImages_body_def generateVideos_body_def
        countTokens_body_def embedContent_body_def Let_def split: prod.splits sum.splits)
  have chat: "\<not> returns_promise (fst (chatMessage_body E x s))"
    "\<not> returns_promise (fst (chatMessageStream_body E x s))"
    by (simp_all add: chatMessage_body_def chatMessageStream_body_def Let_def
        split: prod.splits sum.splits option.splits)
  have files: "\<not> returns_promise (fst (uploadFile_body E x cfg s))"
    "\<not> returns_promise (fst (getFile_body E x cfg s))"
    "\<not> returns_promise (fst (deleteFile_body E x cfg s))"
    by (simp_all add: uploadFile_body_def getFile_body_def deleteFile_body_def Let_def
        split: prod.splits sum.splits option.splits)
  show ?thesis
    using eq direct gen chat files by simp
qed

theorem computeTokens_unawaited_equiv_witness:
  "priv_apiKey (constructor ''key'' None None None empty_world) \<noteq> []
   \<and> returns_promise (fst (computeTokens_body canned_env ''text'' None
        (constructor ''key'' None None None empty_world)))
   \<and> fst (computeTokens canned_env ''text'' None (constructor ''key'' None None None empty_world))
      = Fulfilled (JObj ''canned'')
   \<and> fst (computeTokens_awaited canned_env ''text'' None (constructor ''key'' None None None empty_world))
      = Fulfilled (JObj ''canned'')"
proof -
  have k: "priv_apiKey (constructor ''key'' None None None empty_world) \<noteq> []"
    by (simp add: constructor_def new_GoogleGenAI_def Let_def)
  have v: "fst (computeTokens_awaited canned_env ''text'' None
        (constructor ''key'' None None None empty_world)) = Fulfilled (JObj ''canned'')"
    by (simp add: constructor_def new_GoogleGenAI_def computeTokens_awaited_def
        computeTokens_awaited_body_def models_def ensure_genai_def invoke_def canned_env_def Let_def)
  show ?thesis
    using k v computeTokens_unawaited_equiv [of canned_env "''text''" None
        "constructor ''key'' None None None empty_world"]
    by simp
qed

text \<open>
  C10. After any sequence of operations on a constructed instance, the client handle is
  still the one the constructor built: it is never absent, so the branch that builds a
  client when none exists is not taken (\<open>ensure_genai\<close> and the getter \<open>models\<close> leave
  the state alone), the only construction among the recorded calls is the constructor's,
  and every later call is made on that handle or on a chat created from it.
\<close>

theorem client_handle_built_once:
  "priv_genai (constructor k opts c m w) = Some (built_handle k opts w)
   \<and> priv_genai (run E xs (constructor k opts c m w)) = Some (built_handle k opts w)
   \<and> ensure_genai (run E xs (constructor k opts c m w))
       = (built_handle k opts w, run E xs (constructor k opts c m w))
   \<and> snd (models (run E xs (constructor k opts c m w))) = run E xs (constructor k opts c m w)
   \<and> take (Suc (length (trace w))) (trace (run E xs (constructor k opts c m w)))
       = trace w @ [New_GoogleGenAI (genai_options (built_handle k opts w))]
   \<and> list_all (on_handle (built_handle k opts w))
       (drop (Suc (length (trace w))) (trace (run E xs (constructor k opts c m w))))"
proof -
  let ?g = "built_handle k opts w"
  let ?pre = "trace w @ [New_GoogleGenAI (genai_options ?g)]"
  have c0: "coherent E ?pre ?g (constructor k opts c m w)"
    by (rule coherent_constructor)
  have c: "coherent E ?pre ?g (run E xs (constructor k opts c m w))"
    by (rule coherent_instance)
  have g0: "priv_genai (constructor k opts c m w) = Some ?g"
    using c0 by (simp add: coherent_def)
  have g: "priv_genai (run E xs (constructor k opts c m w)) = Some ?g"
    using c by (simp add: coherent_def)
  obtain calls where t: "trace (run E xs (constructor k opts c m w)) = ?pre @ calls"
      and l: "list_all (on_handle ?g) calls"
    using c unfolding coherent_def by blast
  show ?thesis
    using g0 g l by (simp add: t ensure_genai_Some models_Some)
qed

theorem client_handle_built_once_witness:
  "priv_genai (run canned_env [Set_apiKey ''k2'', Call_generateContent ''hi'' None, Get_models]
       (constructor ''k1'' None None None empty_world)) = Some (GoogleGenAI 0 \<lparr>apiKey = Some ''k1'', others = []\<rparr>)
   \<and> trace (run canned_env [Set_apiKey ''k2'', Call_generateContent ''hi'' None, Get_models]
       (constructor ''k1'' None None None empty_world))
     = [New_GoogleGenAI \<lparr>apiKey = Some ''k1'', others = []\<rparr>,
        Models_call (GoogleGenAI 0 \<lparr>apiKey = Some ''k1'', others = []\<rparr>) MGenerateContent Gemini_1_5_flash ''hi'' None]"
  using client_handle_built_once [of "''k1''" None None None empty_world canned_env
      "[Set_apiKey ''k2'', Call_generateContent ''hi'' None, Get_models]"]
  by (simp add: built_handle_def empty_options_def empty_world_def canned_env_def
      constructor_def new_GoogleGenAI_def set_apiKey_def generateContent_def generateContent_body_def
      models_def ensure_genai_def invoke_def Let_def)

end
